theory Spec2Isabelle
  imports Main
begin

section \<open>String operations of the host language\<close>

text \<open>
  The builder works on JavaScript strings. The patterns it searches for are ASCII, so a
  string is modelled as a list of characters and each \<open>String.prototype\<close> method the
  source calls is a recursive function on that list.
\<close>

text \<open>\<open>s.startsWith(pat)\<close>, used by the searches below.\<close>

definition startsWith :: "string \<Rightarrow> string \<Rightarrow> bool" where
  "startsWith pat s = (take (length pat) s = pat)"

text \<open>\<open>s.includes(pat)\<close>: \<open>pat\<close> occurs somewhere in \<open>s\<close>.\<close>

fun includes_str :: "string \<Rightarrow> string \<Rightarrow> bool" where
  "includes_str pat [] = (pat = [])"
| "includes_str pat (c # cs) = (startsWith pat (c # cs) \<or> includes_str pat cs)"

text \<open>\<open>s.endsWith(suf)\<close>.\<close>

definition endsWith :: "string \<Rightarrow> string \<Rightarrow> bool" where
  "endsWith suf s = (length suf \<le> length s \<and> drop (length s - length suf) s = suf)"

text \<open>\<open>s.split(d)\<close> for a one-character separator; the empty string splits into \<open>[""]\<close>.\<close>

fun split_str :: "char \<Rightarrow> string \<Rightarrow> string list" where
  "split_str d [] = [[]]"
| "split_str d (c # cs) =
     (if c = d then [] # split_str d cs
      else (case split_str d cs of
              [] \<Rightarrow> [[c]]
            | x # xs \<Rightarrow> (c # x) # xs))"

text \<open>\<open>xs[i]\<close> on an array: \<open>undefined\<close> (here \<open>None\<close>) past the end.\<close>

fun index_opt :: "'a list \<Rightarrow> nat \<Rightarrow> 'a option" where
  "index_opt [] i = None"
| "index_opt (x # xs) 0 = Some x"
| "index_opt (x # xs) (Suc i) = index_opt xs i"

text \<open>
  \<open>s.replace(pat, rep)\<close> with a string pattern: only the FIRST occurrence of \<open>pat\<close> is
  replaced. (The replacement strings of the source contain no \<open>$\<close>.)
\<close>

fun replace :: "string \<Rightarrow> string \<Rightarrow> string \<Rightarrow> string" where
  "replace pat rep [] = (if pat = [] then rep else [])"
| "replace pat rep (c # cs) =
     (if startsWith pat (c # cs) then rep @ drop (length pat) (c # cs)
      else c # replace pat rep cs)"

text \<open>\<open>s.replaceAll(a, b)\<close> for one-character \<open>a\<close> and \<open>b\<close>.\<close>

definition replaceAll_char :: "char \<Rightarrow> char \<Rightarrow> string \<Rightarrow> string" where
  "replaceAll_char a b s = map (\<lambda>c. if c = a then b else c) s"

text \<open>\<open>xs.join(sep)\<close>.\<close>

fun join :: "string \<Rightarrow> string list \<Rightarrow> string" where
  "join sep [] = []"
| "join sep [x] = x"
| "join sep (x # y # ys) = x @ sep @ join sep (y # ys)"

definition apostrophe :: char where
  "apostrophe = CHR 0x27"

definition backslash :: char where
  "backslash = CHR 0x5C"

text \<open>
  \<open>[...new Set(xs)]\<close>: a \<open>Set\<close> keeps its elements in insertion order, and adding an
  element that is already there changes nothing.
\<close>

definition set_add :: "'a list \<Rightarrow> 'a \<Rightarrow> 'a list" where
  "set_add seen x = (if x \<in> set seen then seen else seen @ [x])"

definition new_Set :: "'a list \<Rightarrow> 'a list" where
  "new_Set xs = foldl set_add [] xs"


section \<open>Data model\<close>

text \<open>
  Modelled from the spec: the enumerations \<open>SchemaType\<close> and \<open>SchemaSource\<close> and the
  interface \<open>SchemaInfo\<close> are declared in \<open>models/\<close>, which is not part of the sources
  at hand. \<open>SchemaType\<close> has the four members the builder names. \<open>SchemaSource\<close> has
  \<open>Api\<close>, the only member the builder names, and the two other origins the
  specification lists (component and plugin records).
\<close>

datatype SchemaType = Standard | Plain | NoRelations | AdminPanelLifeCycle

datatype SchemaSource = Api | Component | Plugin

text \<open>The only exception the builder can raise: a member read on \<open>undefined\<close>.\<close>

datatype error = TypeError

text \<open>
  One entry of \<open>schema.attributes\<close>, as parsed from the schema's JSON. Every member may
  be absent (\<open>None\<close> is \<open>undefined\<close>).
\<close>

record Attribute =
  atype :: "string option"
  relation :: "string option"
  target :: "string option"
  component :: "string option"
  enum_values :: "string list option"
  required :: "bool option"
  repeatable :: "bool option"
  multiple :: "bool option"

text \<open>
  The parsed schema: \<open>attributes\<close> are the entries of the attribute object in the order
  \<open>Object.entries\<close> lists them (\<open>None\<close> when the member is missing), \<open>localized\<close>
  is the truth value of \<open>pluginOptions?.i18n?.localized\<close>.
\<close>

record Schema =
  attributes :: "(string \<times> Attribute) list option"
  localized :: bool

record SchemaInfo =
  schemaPath :: string
  destinationFolder :: string
  schema :: "Schema option"
  pascalName :: string
  source :: SchemaSource
  dependencies :: "string list"
  interfaceAsText :: string
  plainInterfaceAsText :: string
  noRelationsInterfaceAsText :: string
  adminPanelLifeCycleRelationsInterfaceAsText :: string

text \<open>
  What the builder imports from outside this file, taken as parameters: the \<open>pascal-case\<close>
  library function (applied to a string or to \<open>undefined\<close>, it may throw), the path
  helpers, the platform test, the plugin's name and \<open>prettier.format\<close> under the
  configured options (\<open>None\<close> when there are no options).
\<close>

record Env =
  pascalCase :: "string option \<Rightarrow> error + string"
  getRelativePath :: "string \<Rightarrow> string \<Rightarrow> string"
  getFileNameFromSchema :: "SchemaInfo \<Rightarrow> bool \<Rightarrow> string"
  path_join :: "string \<Rightarrow> string \<Rightarrow> string"
  isWindows :: bool
  pluginName :: string
  prettierFormat :: "(string \<Rightarrow> string) option"


section \<open>The interface builder\<close>

subsection \<open>\<open>isOptional\<close>\<close>

definition isOptional :: "Attribute \<Rightarrow> bool" where
  "isOptional attributeValue =
     (if relation attributeValue = Some ''oneToMany'' \<or> repeatable attributeValue = Some True
      then False
      else required attributeValue \<noteq> Some True)"

subsection \<open>The body of the attribute loop of \<open>buildInterfaceText\<close>\<close>

text \<open>
  Each branch returns the property line and the dependency types it pushes, in order.
  \<open>propertyName\<close> already carries the \<open>?\<close> of an optional property.
\<close>

definition relationProperty ::
  "Env \<Rightarrow> string \<Rightarrow> SchemaType \<Rightarrow> string \<Rightarrow> Attribute \<Rightarrow> error + (string \<times> string list)"
where
  "relationProperty env indentation schemaType propertyName attributeValue =
     (case target attributeValue of
        None \<Rightarrow> Inl TypeError
      | Some tgt \<Rightarrow>
          (case (if includes_str ''::user'' tgt then Inr ''User''
                 else pascalCase env (index_opt (split_str CHR ''.'' tgt) 1)) of
             Inl e \<Rightarrow> Inl e
           | Inr baseType \<Rightarrow>
               (let propertyType =
                      (if schemaType = Plain \<or> schemaType = AdminPanelLifeCycle
                       then baseType @ ''_Plain'' else baseType)
                in case relation attributeValue of
                     None \<Rightarrow> Inl TypeError
                   | Some rel \<Rightarrow>
                       (let isArray = endsWith ''ToMany'' rel;
                            bracketsIfArray = (if isArray then ''[]'' else '''')
                        in case schemaType of
                             Standard \<Rightarrow>
                               Inr (indentation @ propertyName @ '': { data: '' @ propertyType
                                      @ bracketsIfArray @ '' };\<newline>'',
                                    [propertyType])
                           | Plain \<Rightarrow>
                               Inr (indentation @ propertyName @ '': '' @ propertyType
                                      @ bracketsIfArray @ '';\<newline>'',
                                    [propertyType])
                           | NoRelations \<Rightarrow>
                               Inr (indentation @ propertyName @ '': number''
                                      @ bracketsIfArray @ '';\<newline>'',
                                    [propertyType])
                           | AdminPanelLifeCycle \<Rightarrow>
                               Inr (indentation @ propertyName
                                      @ '': AdminPanelRelationPropertyModification<''
                                      @ propertyType @ ''>'' @ bracketsIfArray @ '';\<newline>'',
                                    [propertyType, ''AdminPanelRelationPropertyModification''])))))"

definition componentProperty ::
  "Env \<Rightarrow> string \<Rightarrow> SchemaType \<Rightarrow> string \<Rightarrow> Attribute \<Rightarrow> error + (string \<times> string list)"
where
  "componentProperty env indentation schemaType propertyName attributeValue =
     (case (if target attributeValue = Some ''plugin::users-permissions.user'' then Inr ''User''
            else (case component attributeValue of
                    None \<Rightarrow> Inl TypeError
                  | Some c \<Rightarrow> pascalCase env (index_opt (split_str CHR ''.'' c) 1))) of
        Inl e \<Rightarrow> Inl e
      | Inr baseType \<Rightarrow>
          (let propertyType =
                 (if schemaType = Plain \<or> schemaType = AdminPanelLifeCycle
                  then baseType @ ''_Plain'' else baseType);
               propertyType =
                 (if schemaType = NoRelations then propertyType @ ''_NoRelations''
                  else propertyType);
               isArray = (repeatable attributeValue = Some True);
               bracketsIfArray = (if isArray then ''[]'' else '''')
           in Inr (indentation @ propertyName @ '': '' @ propertyType @ bracketsIfArray
                     @ '';\<newline>'',
                   [propertyType])))"

definition mediaProperty ::
  "string \<Rightarrow> SchemaType \<Rightarrow> string \<Rightarrow> Attribute \<Rightarrow> string \<times> string list"
where
  "mediaProperty indentation schemaType propertyName attributeValue =
     (let propertyType = ''Media'';
          bracketsIfArray = (if multiple attributeValue = Some True then ''[]'' else '''')
      in case schemaType of
           Standard \<Rightarrow>
             (indentation @ propertyName @ '': { data: '' @ propertyType @ bracketsIfArray
                @ '' };\<newline>'',
              [propertyType])
         | Plain \<Rightarrow>
             (indentation @ propertyName @ '': '' @ propertyType @ bracketsIfArray
                @ '';\<newline>'',
              [propertyType])
         | NoRelations \<Rightarrow>
             (indentation @ propertyName @ '': number'' @ bracketsIfArray @ '';\<newline>'',
              [propertyType])
         | AdminPanelLifeCycle \<Rightarrow>
             (indentation @ propertyName @ '': AdminPanelRelationPropertyModification<''
                @ propertyType @ ''>'' @ bracketsIfArray @ '';\<newline>'',
              [propertyType, ''AdminPanelRelationPropertyModification'']))"

definition enumerationProperty ::
  "string \<Rightarrow> string \<Rightarrow> Attribute \<Rightarrow> error + (string \<times> string list)"
where
  "enumerationProperty indentation propertyName attributeValue =
     (case enum_values attributeValue of
        None \<Rightarrow> Inl TypeError
      | Some vs \<Rightarrow>
          (let enumOptions = join '' | '' (map (\<lambda>v. [apostrophe] @ v @ [apostrophe]) vs)
           in Inr (indentation @ propertyName @ '': '' @ enumOptions @ '';\<newline>'', [])))"

text \<open>
  The \<open>if\<close>/\<open>else if\<close> chain of the loop body, in the order of the source. The test for
  \<open>password\<close> in the text branch comes before the branch that is headed "Password".
\<close>

definition attributeProperty ::
  "Env \<Rightarrow> string \<Rightarrow> SchemaType \<Rightarrow> string \<times> Attribute \<Rightarrow> error + (string \<times> string list)"
where
  "attributeProperty env indentation schemaType attribute =
     (let attributeValue = snd attribute;
          propertyName = (if isOptional attributeValue then fst attribute @ ''?''
                          else fst attribute);
          ty = atype attributeValue
      in if ty = Some ''relation'' then
           relationProperty env indentation schemaType propertyName attributeValue
         else if ty = Some ''component'' then
           componentProperty env indentation schemaType propertyName attributeValue
         else if ty = Some ''dynamiczone'' then
           Inr (indentation @ propertyName @ '': any;\<newline>'', [])
         else if ty = Some ''media'' then
           Inr (mediaProperty indentation schemaType propertyName attributeValue)
         else if ty = Some ''enumeration'' then
           enumerationProperty indentation propertyName attributeValue
         else if ty = Some ''string'' \<or> ty = Some ''text'' \<or> ty = Some ''richtext'' \<or>
                 ty = Some ''email'' \<or> ty = Some ''password'' \<or> ty = Some ''uid'' then
           Inr (indentation @ propertyName @ '': string;\<newline>'', [])
         else if ty = Some ''json'' then
           Inr (indentation @ propertyName @ '': any;\<newline>'', [])
         else if ty = Some ''password'' then
           Inr ('''', [])
         else if ty = Some ''integer'' \<or> ty = Some ''biginteger'' \<or> ty = Some ''decimal'' \<or>
                 ty = Some ''float'' then
           Inr (indentation @ propertyName @ '': number;\<newline>'', [])
         else if ty = Some ''date'' \<or> ty = Some ''datetime'' \<or> ty = Some ''time'' then
           Inr (indentation @ propertyName @ '': Date;\<newline>'', [])
         else if ty = Some ''boolean'' then
           Inr (indentation @ propertyName @ '': boolean;\<newline>'', [])
         else
           Inr (indentation @ propertyName @ '': any;\<newline>'', []))"

text \<open>
  The loop over the attributes: \<open>interfaceText\<close> and \<open>interfaceDependencies\<close> are the
  two accumulators of the source.
\<close>

fun attributesLoop ::
  "Env \<Rightarrow> string \<Rightarrow> SchemaType \<Rightarrow> (string \<times> Attribute) list \<Rightarrow> string \<Rightarrow> string list
     \<Rightarrow> error + (string \<times> string list)"
where
  "attributesLoop env indentation schemaType [] interfaceText interfaceDependencies =
     Inr (interfaceText, interfaceDependencies)"
| "attributesLoop env indentation schemaType (attribute # rest) interfaceText
       interfaceDependencies =
     (case attributeProperty env indentation schemaType attribute of
        Inl e \<Rightarrow> Inl e
      | Inr (propertyDefinition, pushed) \<Rightarrow>
          attributesLoop env indentation schemaType rest
            (interfaceText @ propertyDefinition) (interfaceDependencies @ pushed))"

subsection \<open>\<open>buildInterfaceText\<close>\<close>

definition interfaceName :: "SchemaInfo \<Rightarrow> SchemaType \<Rightarrow> string" where
  "interfaceName schemaInfo schemaType =
     (case schemaType of
        Standard \<Rightarrow> pascalName schemaInfo
      | Plain \<Rightarrow> pascalName schemaInfo @ ''_Plain''
      | NoRelations \<Rightarrow> pascalName schemaInfo @ ''_NoRelations''
      | AdminPanelLifeCycle \<Rightarrow> pascalName schemaInfo @ ''_AdminPanelLifeCycle'')"

text \<open>The text before the attribute lines, and the indentation of the lines.\<close>

definition interfaceHeader :: "SchemaInfo \<Rightarrow> SchemaType \<Rightarrow> string" where
  "interfaceHeader schemaInfo schemaType =
     ''export interface '' @ interfaceName schemaInfo schemaType @ '' {\<newline>''
     @ (if source schemaInfo = Api then ''  id: number;\<newline>'' else '''')
     @ (if source schemaInfo = Api \<and> schemaType = Standard then ''  attributes: {\<newline>''
        else '''')"

definition indentationOf :: "SchemaInfo \<Rightarrow> SchemaType \<Rightarrow> string" where
  "indentationOf schemaInfo schemaType =
     (if source schemaInfo = Api \<and> schemaType = Standard then ''    '' else ''  '')"

text \<open>The localization lines, appended when the schema is localized.\<close>

definition localizationText :: "SchemaInfo \<Rightarrow> SchemaType \<Rightarrow> string \<Rightarrow> string" where
  "localizationText schemaInfo schemaType indentation =
     indentation @ ''locale: string;\<newline>''
     @ (if schemaType = Standard
        then indentation @ ''localizations?: { data: '' @ pascalName schemaInfo
               @ ''[] };\<newline>''
        else indentation @ ''localizations?: '' @ pascalName schemaInfo @ ''[];\<newline>'')"

text \<open>The text after the last property line.\<close>

definition interfaceFooter :: "SchemaInfo \<Rightarrow> SchemaType \<Rightarrow> string" where
  "interfaceFooter schemaInfo schemaType =
     (if source schemaInfo = Api \<and> schemaType = Standard then ''  };\<newline>'' else '''')
     @ ''}\<newline>''"

text \<open>
  \<open>buildInterfaceText\<close> returns the interface text and the dependency types pushed to
  \<open>interfaceDependencies\<close> (the caller passes an empty array). Reading
  \<open>schemaInfo.schema.attributes\<close> throws when the schema is missing, and
  \<open>Object.entries\<close> throws when the attributes are.
\<close>

definition buildInterfaceText ::
  "Env \<Rightarrow> SchemaInfo \<Rightarrow> SchemaType \<Rightarrow> error + (string \<times> string list)"
where
  "buildInterfaceText env schemaInfo schemaType =
     (let interfaceText = interfaceHeader schemaInfo schemaType;
          indentation = indentationOf schemaInfo schemaType
      in case schema schemaInfo of
           None \<Rightarrow> Inl TypeError
         | Some sch \<Rightarrow>
             (case attributes sch of
                None \<Rightarrow> Inl TypeError
              | Some attrs \<Rightarrow>
                  (case attributesLoop env indentation schemaType attrs interfaceText [] of
                     Inl e \<Rightarrow> Inl e
                   | Inr (interfaceText, interfaceDependencies) \<Rightarrow>
                       Inr (interfaceText
                              @ (if localized sch
                                 then localizationText schemaInfo schemaType indentation
                                 else '''')
                              @ interfaceFooter schemaInfo schemaType,
                            interfaceDependencies))))"

subsection \<open>\<open>getImportPath\<close> and \<open>convertToInterface\<close>\<close>

definition getImportPath :: "Env \<Rightarrow> string \<Rightarrow> string \<Rightarrow> string" where
  "getImportPath env importPath fileName =
     (let result = (if importPath = ''./'' then ''./'' @ fileName
                    else path_join env importPath fileName)
      in if isWindows env then replaceAll_char backslash CHR ''/'' result else result)"

text \<open>The import statement pushed for one dependency type.\<close>

definition dependencyImport :: "Env \<Rightarrow> SchemaInfo \<Rightarrow> SchemaInfo list \<Rightarrow> string \<Rightarrow> string" where
  "dependencyImport env schemaInfo allSchemas dependencyType =
     (let dependencySchemaInfo =
            find (\<lambda>x. pascalName x
                        = replace ''_NoRelations'' '''' (replace ''_Plain'' '''' dependencyType))
              allSchemas;
          importPath =
            (case dependencySchemaInfo of
               None \<Rightarrow> destinationFolder schemaInfo
             | Some d \<Rightarrow>
                 getImportPath env
                   (getRelativePath env (destinationFolder schemaInfo) (destinationFolder d))
                   (getFileNameFromSchema env d False))
      in ''import { '' @ dependencyType @ '' } from '' @ [apostrophe] @ importPath
           @ [apostrophe] @ '';'')"

text \<open>The assignment at the end of \<open>convertToInterface\<close>.\<close>

definition storeInterfaceText :: "SchemaType \<Rightarrow> string \<Rightarrow> SchemaInfo \<Rightarrow> SchemaInfo" where
  "storeInterfaceText schemaType interfaceText schemaInfo =
     (case schemaType of
        Standard \<Rightarrow> schemaInfo\<lparr>interfaceAsText := interfaceText\<rparr>
      | Plain \<Rightarrow> schemaInfo\<lparr>plainInterfaceAsText := interfaceText\<rparr>
      | NoRelations \<Rightarrow> schemaInfo\<lparr>noRelationsInterfaceAsText := interfaceText\<rparr>
      | AdminPanelLifeCycle \<Rightarrow>
          schemaInfo\<lparr>adminPanelLifeCycleRelationsInterfaceAsText := interfaceText\<rparr>)"

text \<open>
  \<open>convertToInterface\<close> mutates \<open>schemaInfo\<close>; the model returns the record after the
  call. The registry \<open>allSchemas\<close> is read only for the name, the folder and the file name
  of a dependency.
\<close>

definition convertToInterface ::
  "Env \<Rightarrow> SchemaInfo \<Rightarrow> SchemaInfo list \<Rightarrow> SchemaType \<Rightarrow> error + SchemaInfo"
where
  "convertToInterface env schemaInfo allSchemas schemaType =
     (case schema schemaInfo of
        None \<Rightarrow> Inr schemaInfo
      | Some sch \<Rightarrow>
          (case buildInterfaceText env schemaInfo schemaType of
             Inl e \<Rightarrow> Inl e
           | Inr (interfaceText, interfaceDependencies) \<Rightarrow>
               Inr (storeInterfaceText schemaType interfaceText
                      (schemaInfo\<lparr>dependencies :=
                         dependencies schemaInfo
                         @ map (dependencyImport env schemaInfo allSchemas)
                             interfaceDependencies\<rparr>))))"

subsection \<open>\<open>convertSchemaToInterfaces\<close> and \<open>buildInterfacesFileContent\<close>\<close>

definition convertSchemaToInterfaces ::
  "Env \<Rightarrow> SchemaInfo \<Rightarrow> SchemaInfo list \<Rightarrow> error + SchemaInfo"
where
  "convertSchemaToInterfaces env schema0 schemas =
     (case convertToInterface env schema0 schemas Standard of
        Inl e \<Rightarrow> Inl e
      | Inr s1 \<Rightarrow>
     (case convertToInterface env s1 schemas Plain of
        Inl e \<Rightarrow> Inl e
      | Inr s2 \<Rightarrow>
     (case convertToInterface env s2 schemas NoRelations of
        Inl e \<Rightarrow> Inl e
      | Inr s3 \<Rightarrow>
     (case (if source s3 = Api then convertToInterface env s3 schemas AdminPanelLifeCycle
            else Inr s3) of
        Inl e \<Rightarrow> Inl e
      | Inr s4 \<Rightarrow> Inr (s4\<lparr>dependencies := new_Set (dependencies s4)\<rparr>)))))"

definition buildInterfacesFileContent :: "Env \<Rightarrow> SchemaInfo \<Rightarrow> string" where
  "buildInterfacesFileContent env schemaInfo =
     (let interfacesFileContent =
            ''// Interface automatically generated by '' @ pluginName env @ ''\<newline>\<newline>'';
          interfacesFileContent =
            (if length (dependencies schemaInfo) > 0
             then interfacesFileContent @ join ''\<newline>'' (dependencies schemaInfo)
                    @ ''\<newline>\<newline>''
             else interfacesFileContent);
          interfacesText = interfaceAsText schemaInfo;
          interfacesText = interfacesText @ ''\<newline>'' @ plainInterfaceAsText schemaInfo;
          interfacesText = interfacesText @ ''\<newline>'' @ noRelationsInterfaceAsText schemaInfo;
          interfacesText = interfacesText @ ''\<newline>''
                             @ adminPanelLifeCycleRelationsInterfaceAsText schemaInfo;
          interfacesText = replace ''\<newline>\<newline>'' ''\<newline>'' interfacesText;
          interfacesFileContent = interfacesFileContent @ interfacesText
      in case prettierFormat env of
           None \<Rightarrow> interfacesFileContent
         | Some format \<Rightarrow> format interfacesFileContent)"


section \<open>Notions used to state the properties\<close>

text \<open>The position of the first occurrence of \<open>x\<close> in \<open>xs\<close>.\<close>

fun first_index :: "'a list \<Rightarrow> 'a \<Rightarrow> nat" where
  "first_index [] x = 0"
| "first_index (y # ys) x = (if x = y then 0 else Suc (first_index ys x))"

text \<open>
  The import statements one call of \<open>convertToInterface\<close> pushes for variant \<open>t\<close>, the
  variants \<open>convertSchemaToInterfaces\<close> asks for, and the whole list of statements on
  \<open>schema.dependencies\<close> just before it is deduplicated, in the order of the pushes.
\<close>

definition emittedImports :: "Env \<Rightarrow> SchemaInfo \<Rightarrow> SchemaInfo list \<Rightarrow> SchemaType \<Rightarrow> string list" where
  "emittedImports env s reg t =
     (case buildInterfaceText env s t of
        Inl e \<Rightarrow> []
      | Inr (txt, deps) \<Rightarrow> map (dependencyImport env s reg) deps)"

definition generatedVariants :: "SchemaInfo \<Rightarrow> SchemaType list" where
  "generatedVariants s =
     [Standard, Plain, NoRelations] @ (if source s = Api then [AdminPanelLifeCycle] else [])"

definition emittedStatements :: "Env \<Rightarrow> SchemaInfo \<Rightarrow> SchemaInfo list \<Rightarrow> string list" where
  "emittedStatements env s reg =
     dependencies s @ concat (map (emittedImports env s reg) (generatedVariants s))"

text \<open>The member of the record that holds the text of variant \<open>t\<close>.\<close>

definition variantText :: "SchemaType \<Rightarrow> SchemaInfo \<Rightarrow> string" where
  "variantText t s =
     (case t of
        Standard \<Rightarrow> interfaceAsText s
      | Plain \<Rightarrow> plainInterfaceAsText s
      | NoRelations \<Rightarrow> noRelationsInterfaceAsText s
      | AdminPanelLifeCycle \<Rightarrow> adminPanelLifeCycleRelationsInterfaceAsText s)"



section \<open>Example schemas\<close>

text \<open>
  A concrete environment: a \<open>pascalCase\<close> that knows the names used below and throws on
  \<open>undefined\<close>, POSIX paths, no formatter.
\<close>

definition ex_pascalCase :: "string option \<Rightarrow> error + string" where
  "ex_pascalCase x =
     (case x of
        None \<Rightarrow> Inl TypeError
      | Some n \<Rightarrow> (if n = ''tag'' then Inr ''Tag''
                   else if n = ''page'' then Inr ''Page''
                   else Inr n))"

definition ex_env :: Env where
  "ex_env = \<lparr>pascalCase = ex_pascalCase,
             getRelativePath = (\<lambda>a b. if a = b then ''./'' else ''../'' @ b),
             getFileNameFromSchema = (\<lambda>x b. pascalName x),
             path_join = (\<lambda>a b. a @ ''/'' @ b),
             isWindows = False,
             pluginName = ''schemas-to-ts'',
             prettierFormat = None\<rparr>"

text \<open>An attribute object with the member \<open>type\<close> only.\<close>

definition attributeOfType :: "string \<Rightarrow> Attribute" where
  "attributeOfType ty =
     \<lparr>atype = Some ty, relation = None, target = None, component = None,
      enum_values = None, required = None, repeatable = None, multiple = None\<rparr>"

text \<open>A record on which nothing has been generated yet.\<close>

definition schemaInfoOf ::
  "string \<Rightarrow> string \<Rightarrow> SchemaSource \<Rightarrow> Schema option \<Rightarrow> SchemaInfo" where
  "schemaInfoOf name folder src sch =
     \<lparr>schemaPath = folder @ ''/schema.json'', destinationFolder = folder, schema = sch,
      pascalName = name, source = src, dependencies = [],
      interfaceAsText = '''', plainInterfaceAsText = '''', noRelationsInterfaceAsText = '''',
      adminPanelLifeCycleRelationsInterfaceAsText = ''''\<rparr>"

text \<open>\<open>{ secret: { type: 'password' } }\<close>\<close>

definition ex_account :: SchemaInfo where
  "ex_account = schemaInfoOf ''Account'' ''account'' Api
     (Some \<lparr>attributes = Some [(''secret'', attributeOfType ''password'')],
            localized = False\<rparr>)"

text \<open>\<open>{ type: 'relation', relation: 'manyToMany', target: 'api::tag.tag' }\<close>\<close>

definition ex_tags :: Attribute where
  "ex_tags = (attributeOfType ''relation'')
     \<lparr>relation := Some ''manyToMany'', target := Some ''api::tag.tag''\<rparr>"

text \<open>
  \<open>{ type: 'relation', relation: 'manyToOne', target: 'plugin::users-permissions.user' }\<close>
\<close>

definition ex_author :: Attribute where
  "ex_author = (attributeOfType ''relation'')
     \<lparr>relation := Some ''manyToOne'', target := Some ''plugin::users-permissions.user''\<rparr>"

text \<open>A localized collection type with a relation to itself.\<close>

definition ex_page_schema :: Schema where
  "ex_page_schema =
     \<lparr>attributes = Some [(''related'', (attributeOfType ''relation'')
        \<lparr>relation := Some ''oneToMany'', target := Some ''api::page.page''\<rparr>)],
      localized = True\<rparr>"

definition ex_page :: SchemaInfo where
  "ex_page = schemaInfoOf ''Page'' ''page'' Api (Some ex_page_schema)"

text \<open>A schema whose attribute object is \<open>{}\<close>.\<close>

definition ex_empty :: SchemaInfo where
  "ex_empty = schemaInfoOf ''Empty'' ''empty'' Api
     (Some \<lparr>attributes = Some [], localized = False\<rparr>)"

text \<open>A record without a schema.\<close>

definition ex_missing :: SchemaInfo where
  "ex_missing = schemaInfoOf ''Missing'' ''missing'' Api None"

text \<open>\<open>{ on: { type: 'boolean' } }\<close>\<close>

definition ex_flag :: SchemaInfo where
  "ex_flag = schemaInfoOf ''Flag'' ''flag'' Api
     (Some \<lparr>attributes = Some [(''on'', attributeOfType ''boolean'')], localized = False\<rparr>)"

text \<open>Two media attributes: every variant depends on \<open>Media\<close> twice.\<close>

definition ex_gallery :: SchemaInfo where
  "ex_gallery = schemaInfoOf ''Gallery'' ''gallery'' Api
     (Some \<lparr>attributes = Some [(''cover'', attributeOfType ''media''),
               (''photos'', (attributeOfType ''media'')\<lparr>multiple := Some True\<rparr>)],
            localized = False\<rparr>)"

text \<open>A component.\<close>

definition ex_seo :: SchemaInfo where
  "ex_seo = schemaInfoOf ''Seo'' ''components/shared'' Component
     (Some \<lparr>attributes = Some [(''title'', attributeOfType ''string'')], localized = False\<rparr>)"

text \<open>An attribute of a kind the builder does not know.\<close>

definition ex_geo :: Attribute where
  "ex_geo = attributeOfType ''geopoint''"

text \<open>A polymorphic relation: it has no \<open>target\<close>.\<close>

definition ex_morph :: Attribute where
  "ex_morph = (attributeOfType ''relation'')\<lparr>relation := Some ''morphToMany''\<rparr>"

definition ex_feed :: SchemaInfo where
  "ex_feed = schemaInfoOf ''Feed'' ''feed'' Api
     (Some \<lparr>attributes = Some [(''title'', attributeOfType ''string''), (''items'', ex_morph)],
            localized = False\<rparr>)"

text \<open>A component with an attribute of unknown kind between two known ones.\<close>

definition ex_place_schema :: Schema where
  "ex_place_schema =
     \<lparr>attributes = Some [(''name'', attributeOfType ''string''), (''position'', ex_geo),
                         (''open'', attributeOfType ''boolean'')],
      localized = False\<rparr>"

definition ex_place :: SchemaInfo where
  "ex_place = schemaInfoOf ''Place'' ''place'' Component (Some ex_place_schema)"

definition ex_registry :: "SchemaInfo list" where
  "ex_registry =
     [schemaInfoOf ''Media'' ''common'' Plugin None,
      schemaInfoOf ''AdminPanelRelationPropertyModification'' ''common'' Plugin None,
      ex_gallery]"

lemmas string_defs = startsWith_def endsWith_def replaceAll_char_def apostrophe_def
  backslash_def

lemmas builder_defs = isOptional_def relationProperty_def componentProperty_def
  mediaProperty_def enumerationProperty_def attributeProperty_def interfaceName_def
  interfaceHeader_def indentationOf_def localizationText_def interfaceFooter_def
  buildInterfaceText_def getImportPath_def dependencyImport_def storeInterfaceText_def
  convertToInterface_def convertSchemaToInterfaces_def buildInterfacesFileContent_def
  new_Set_def set_add_def

lemmas example_defs = ex_pascalCase_def ex_env_def attributeOfType_def schemaInfoOf_def
  ex_account_def ex_tags_def ex_author_def ex_page_schema_def ex_page_def ex_empty_def ex_missing_def
  ex_flag_def ex_gallery_def ex_seo_def ex_geo_def ex_morph_def ex_feed_def
  ex_place_schema_def ex_place_def ex_registry_def


section \<open>Insertion-ordered sets\<close>

lemma set_foldl_set_add: "set (foldl set_add acc xs) = set acc \<union> set xs"
  by (induction xs arbitrary: acc) (auto simp: set_add_def)

lemma distinct_foldl_set_add: "distinct acc \<Longrightarrow> distinct (foldl set_add acc xs)"
  by (induction xs arbitrary: acc) (auto simp: set_add_def)

lemma foldl_set_add_absorb: "set xs \<subseteq> set acc \<Longrightarrow> foldl set_add acc xs = acc"
  by (induction xs arbitrary: acc) (auto simp: set_add_def)

lemma foldl_set_add_distinct: "distinct (acc @ xs) \<Longrightarrow> foldl set_add acc xs = acc @ xs"
  by (induction xs arbitrary: acc) (auto simp: set_add_def)

lemma set_new_Set: "set (new_Set xs) = set xs"
  by (simp add: new_Set_def set_foldl_set_add)

lemma distinct_new_Set: "distinct (new_Set xs)"
  by (simp add: new_Set_def distinct_foldl_set_add)

lemma new_Set_snoc: "new_Set (xs @ [x]) = (if x \<in> set xs then new_Set xs else new_Set xs @ [x])"
  using set_new_Set [of xs] by (simp add: new_Set_def set_add_def)

lemma new_Set_absorb:
  assumes "distinct ds" and "set ys \<subseteq> set ds"
  shows "new_Set (ds @ ys) = ds"
proof -
  have "foldl set_add [] ds = ds"
    using assms(1) foldl_set_add_distinct [of "[]" ds] by simp
  then show ?thesis
    using assms(2) by (simp add: new_Set_def foldl_set_add_absorb)
qed

lemma first_index_append_mem:
  "x \<in> set xs \<Longrightarrow> first_index (xs @ ys) x = first_index xs x"
  by (induction xs) auto

lemma first_index_less: "x \<in> set xs \<Longrightarrow> first_index xs x < length xs"
  by (induction xs) auto

lemma first_index_append_notin:
  "x \<notin> set xs \<Longrightarrow> first_index (xs @ ys) x = length xs + first_index ys x"
  by (induction xs) auto

lemma new_Set_first_seen:
  "sorted_wrt (\<lambda>a b. first_index xs a < first_index xs b) (new_Set xs)"
proof (induction xs rule: rev_induct)
  case Nil
  show ?case by (simp add: new_Set_def)
next
  case (snoc x xs)
  have old: "sorted_wrt (\<lambda>a b. first_index (xs @ [x]) a < first_index (xs @ [x]) b) (new_Set xs)"
    using snoc.IH
    by (rule sorted_wrt_mono_rel [rotated]) (simp add: set_new_Set first_index_append_mem)
  show ?case
  proof (cases "x \<in> set xs")
    case True
    with old show ?thesis by (simp add: new_Set_snoc)
  next
    case False
    have "\<forall>a \<in> set (new_Set xs). first_index (xs @ [x]) a < first_index (xs @ [x]) x"
      using False
      by (simp add: set_new_Set first_index_append_mem first_index_append_notin first_index_less)
    with old False show ?thesis
      by (simp add: new_Set_snoc sorted_wrt_append)
  qed
qed

lemma count_list_distinct: "distinct xs \<Longrightarrow> x \<in> set xs \<Longrightarrow> count_list xs x = 1"
  by (induction xs) auto


section \<open>What a generation pass reads and writes\<close>

text \<open>
  The builder reads the schema, the names, the source and the destination folder of a
  record, and never the members it writes.
\<close>

lemma buildInterfaceText_cong:
  assumes sch: "schema s' = schema s"
    and nm: "pascalName s' = pascalName s"
    and src: "source s' = source s"
  shows "buildInterfaceText env s' t = buildInterfaceText env s t"
proof -
  have h: "interfaceHeader s' t = interfaceHeader s t"
    by (simp add: interfaceHeader_def interfaceName_def nm src split: SchemaType.splits)
  have i: "indentationOf s' t = indentationOf s t"
    by (simp add: indentationOf_def src)
  have l: "localizationText s' t = localizationText s t"
    by (rule ext) (simp add: localizationText_def nm)
  have f: "interfaceFooter s' t = interfaceFooter s t"
    by (simp add: interfaceFooter_def src)
  show ?thesis
    unfolding buildInterfaceText_def h i l f sch ..
qed

lemma dependencyImport_cong:
  "destinationFolder s' = destinationFolder s \<Longrightarrow>
   dependencyImport env s' reg = dependencyImport env s reg"
  by (rule ext) (simp add: dependencyImport_def split: option.splits)

lemma emittedImports_cong:
  "schema s' = schema s \<Longrightarrow> pascalName s' = pascalName s \<Longrightarrow> source s' = source s \<Longrightarrow>
   destinationFolder s' = destinationFolder s \<Longrightarrow>
   emittedImports env s' reg t = emittedImports env s reg t"
  by (simp only: emittedImports_def buildInterfaceText_cong [of s' s]
      dependencyImport_cong [of s' s])

text \<open>What one call of \<open>convertToInterface\<close> does to the record.\<close>

lemma convertToInterface_Some:
  assumes "schema s = Some sch"
  shows "convertToInterface env s reg t =
     (case buildInterfaceText env s t of
        Inl e \<Rightarrow> Inl e
      | Inr (txt, deps) \<Rightarrow>
          Inr (storeInterfaceText t txt
                 (s\<lparr>dependencies := dependencies s @ emittedImports env s reg t\<rparr>)))"
  using assms
  by (simp add: convertToInterface_def emittedImports_def split: sum.splits prod.splits)

lemma convertToInterface_None:
  "schema s = None \<Longrightarrow> convertToInterface env s reg t = Inr s"
  by (simp add: convertToInterface_def)

lemma convertToInterface_fields:
  assumes "convertToInterface env s reg t = Inr s'"
  shows "schema s' = schema s \<and> pascalName s' = pascalName s \<and> source s' = source s \<and>
         destinationFolder s' = destinationFolder s \<and> schemaPath s' = schemaPath s"
  using assms
  by (cases t)
     (auto simp: convertToInterface_def storeInterfaceText_def
           split: option.splits sum.splits prod.splits)

lemma convertToInterface_dependencies:
  assumes "convertToInterface env s reg t = Inr s'"
  shows "dependencies s' =
           dependencies s @ (if schema s = None then [] else emittedImports env s reg t)"
  using assms
  by (cases t)
     (auto simp: convertToInterface_def storeInterfaceText_def emittedImports_def
           split: option.splits sum.splits prod.splits)

lemma convertToInterface_text:
  assumes "convertToInterface env s reg t = Inr s'"
  shows "variantText u s' =
           (if u = t \<and> schema s \<noteq> None
            then fst (projr (buildInterfaceText env s t))
            else variantText u s)"
  using assms
  by (cases t; cases u)
     (auto simp: convertToInterface_def storeInterfaceText_def variantText_def
           split: option.splits sum.splits prod.splits)

lemma emittedImports_None: "schema s = None \<Longrightarrow> emittedImports env s reg t = []"
  by (simp add: emittedImports_def buildInterfaceText_def)

lemma convertToInterface_succeeds:
  assumes "schema s = None \<or> \<not> isl (buildInterfaceText env s t)"
  shows "\<exists>s'. convertToInterface env s reg t = Inr s'"
  using assms
  by (cases "buildInterfaceText env s t")
     (auto simp: convertToInterface_def split: option.splits prod.splits)

lemma convertToInterface_built:
  assumes "convertToInterface env s reg t = Inr s'"
  shows "schema s = None \<or> \<not> isl (buildInterfaceText env s t)"
  using assms
  by (cases "buildInterfaceText env s t")
     (auto simp: convertToInterface_def split: option.splits prod.splits)

text \<open>The calls of \<open>convertSchemaToInterfaces\<close>, one after the other.\<close>

lemma convertSchemaToInterfaces_steps:
  "convertSchemaToInterfaces env s reg = Inr s' \<longleftrightarrow>
     (\<exists>s1 s2 s3 s4.
        convertToInterface env s reg Standard = Inr s1 \<and>
        convertToInterface env s1 reg Plain = Inr s2 \<and>
        convertToInterface env s2 reg NoRelations = Inr s3 \<and>
        (if source s3 = Api then convertToInterface env s3 reg AdminPanelLifeCycle = Inr s4
         else s4 = s3) \<and>
        s' = s4\<lparr>dependencies := new_Set (dependencies s4)\<rparr>)"
  by (auto simp: convertSchemaToInterfaces_def split: sum.splits)

lemma generatedVariants_cases:
  "t \<in> set (generatedVariants s) \<longleftrightarrow>
     t = Standard \<or> t = Plain \<or> t = NoRelations \<or> (t = AdminPanelLifeCycle \<and> source s = Api)"
  by (auto simp: generatedVariants_def)

lemma convertSchemaToInterfaces_result:
  assumes run: "convertSchemaToInterfaces env s reg = Inr s'"
  shows "schema s' = schema s" and "pascalName s' = pascalName s" and "source s' = source s"
    and "destinationFolder s' = destinationFolder s" and "schemaPath s' = schemaPath s"
    and "dependencies s' = new_Set (emittedStatements env s reg)"
    and "variantText u s' =
           (if u \<in> set (generatedVariants s) \<and> schema s \<noteq> None
            then fst (projr (buildInterfaceText env s u))
            else variantText u s)"
    and "schema s \<noteq> None \<Longrightarrow> u \<in> set (generatedVariants s) \<Longrightarrow>
           \<not> isl (buildInterfaceText env s u)"
proof -
  from run obtain s1 s2 s3 s4 where
    c1: "convertToInterface env s reg Standard = Inr s1" and
    c2: "convertToInterface env s1 reg Plain = Inr s2" and
    c3: "convertToInterface env s2 reg NoRelations = Inr s3" and
    c4: "if source s3 = Api then convertToInterface env s3 reg AdminPanelLifeCycle = Inr s4
         else s4 = s3" and
    fin: "s' = s4\<lparr>dependencies := new_Set (dependencies s4)\<rparr>"
    unfolding convertSchemaToInterfaces_steps by blast
  note f1 = convertToInterface_fields [OF c1]
  note f2 = convertToInterface_fields [OF c2]
  note f3 = convertToInterface_fields [OF c3]
  have f4: "schema s4 = schema s3 \<and> pascalName s4 = pascalName s3 \<and> source s4 = source s3 \<and>
            destinationFolder s4 = destinationFolder s3 \<and> schemaPath s4 = schemaPath s3"
    using c4 convertToInterface_fields [of env s3 reg AdminPanelLifeCycle s4]
    by (cases "source s3 = Api") simp_all
  show "schema s' = schema s" and "pascalName s' = pascalName s" and "source s' = source s"
    and "destinationFolder s' = destinationFolder s" and "schemaPath s' = schemaPath s"
    using f1 f2 f3 f4 fin by simp_all
  have b1: "buildInterfaceText env s1 t = buildInterfaceText env s t" for t
    using f1 by (intro buildInterfaceText_cong) simp_all
  have b2: "buildInterfaceText env s2 t = buildInterfaceText env s t" for t
    using f1 f2 by (intro buildInterfaceText_cong) simp_all
  have b3: "buildInterfaceText env s3 t = buildInterfaceText env s t" for t
    using f1 f2 f3 by (intro buildInterfaceText_cong) simp_all
  have e1: "emittedImports env s1 reg t = emittedImports env s reg t" for t
    using f1 by (intro emittedImports_cong) simp_all
  have e2: "emittedImports env s2 reg t = emittedImports env s reg t" for t
    using f1 f2 by (intro emittedImports_cong) simp_all
  have e3: "emittedImports env s3 reg t = emittedImports env s reg t" for t
    using f1 f2 f3 by (intro emittedImports_cong) simp_all
  have src3: "source s3 = source s"
    using f1 f2 f3 by simp
  have sch: "schema s1 = schema s" "schema s2 = schema s" "schema s3 = schema s"
    using f1 f2 f3 by simp_all
  have d4: "dependencies s4 = emittedStatements env s reg"
  proof (cases "source s = Api")
    case True
    with c4 src3 have c4': "convertToInterface env s3 reg AdminPanelLifeCycle = Inr s4"
      by simp
    show ?thesis
      using convertToInterface_dependencies [OF c1] convertToInterface_dependencies [OF c2]
        convertToInterface_dependencies [OF c3] convertToInterface_dependencies [OF c4'] True
      by (simp add: emittedStatements_def generatedVariants_def e1 e2 e3 sch
          emittedImports_None)
  next
    case False
    with c4 src3 have "s4 = s3" by simp
    then show ?thesis
      using convertToInterface_dependencies [OF c1] convertToInterface_dependencies [OF c2]
        convertToInterface_dependencies [OF c3] False
      by (simp add: emittedStatements_def generatedVariants_def e1 e2 sch
          emittedImports_None)
  qed
  with fin show "dependencies s' = new_Set (emittedStatements env s reg)"
    by simp
  have t': "variantText v s' = variantText v s4" for v
    using fin by (simp add: variantText_def split: SchemaType.splits)
  show "variantText u s' =
           (if u \<in> set (generatedVariants s) \<and> schema s \<noteq> None
            then fst (projr (buildInterfaceText env s u))
            else variantText u s)"
  proof (cases "source s = Api")
    case True
    with c4 src3 have c4': "convertToInterface env s3 reg AdminPanelLifeCycle = Inr s4"
      by simp
    show ?thesis
      using convertToInterface_text [OF c1, of u] convertToInterface_text [OF c2, of u]
        convertToInterface_text [OF c3, of u] convertToInterface_text [OF c4', of u] True
      by (cases u; cases "schema s") (simp_all add: t' b1 b2 b3 sch generatedVariants_cases)
  next
    case False
    with c4 src3 have "s4 = s3" by simp
    then show ?thesis
      using convertToInterface_text [OF c1, of u] convertToInterface_text [OF c2, of u]
        convertToInterface_text [OF c3, of u] False
      by (cases u; cases "schema s") (simp_all add: t' b1 b2 sch generatedVariants_cases)
  qed
  show "\<not> isl (buildInterfaceText env s u)"
    if some: "schema s \<noteq> None" and mem: "u \<in> set (generatedVariants s)"
  proof -
    from mem consider "u = Standard" | "u = Plain" | "u = NoRelations"
      | "u = AdminPanelLifeCycle" "source s = Api"
      unfolding generatedVariants_cases by blast
    then show ?thesis
    proof cases
      case 1
      with convertToInterface_built [OF c1] some show ?thesis by simp
    next
      case 2
      with convertToInterface_built [OF c2] some show ?thesis by (simp add: b1 sch)
    next
      case 3
      with convertToInterface_built [OF c3] some show ?thesis by (simp add: b2 sch)
    next
      case 4
      with c4 src3 have "convertToInterface env s3 reg AdminPanelLifeCycle = Inr s4"
        by simp
      from convertToInterface_built [OF this] some 4 show ?thesis by (simp add: b3 sch)
    qed
  qed
qed

lemma convertSchemaToInterfaces_succeeds:
  assumes ok: "schema s = None \<or> (\<forall>t \<in> set (generatedVariants s). \<not> isl (buildInterfaceText env s t))"
  shows "\<exists>s'. convertSchemaToInterfaces env s reg = Inr s'"
proof -
  have g: "schema s = None \<or> \<not> isl (buildInterfaceText env s t)"
    if "t \<in> set (generatedVariants s)" for t
    using ok that by blast
  from convertToInterface_succeeds [of s env Standard reg] g [of Standard]
  obtain s1 where c1: "convertToInterface env s reg Standard = Inr s1"
    by (auto simp: generatedVariants_cases)
  note f1 = convertToInterface_fields [OF c1]
  have "schema s1 = None \<or> \<not> isl (buildInterfaceText env s1 Plain)"
    using g [of Plain] f1 buildInterfaceText_cong [of s1 s env Plain]
    by (simp add: generatedVariants_cases)
  from convertToInterface_succeeds [OF this]
  obtain s2 where c2: "convertToInterface env s1 reg Plain = Inr s2"
    by blast
  note f2 = convertToInterface_fields [OF c2]
  have "schema s2 = None \<or> \<not> isl (buildInterfaceText env s2 NoRelations)"
    using g [of NoRelations] f1 f2 buildInterfaceText_cong [of s2 s env NoRelations]
    by (simp add: generatedVariants_cases)
  from convertToInterface_succeeds [OF this]
  obtain s3 where c3: "convertToInterface env s2 reg NoRelations = Inr s3"
    by blast
  note f3 = convertToInterface_fields [OF c3]
  have "\<exists>s4. if source s3 = Api then convertToInterface env s3 reg AdminPanelLifeCycle = Inr s4
             else s4 = s3"
  proof (cases "source s3 = Api")
    case True
    then have "source s = Api" using f1 f2 f3 by simp
    then have "schema s3 = None \<or> \<not> isl (buildInterfaceText env s3 AdminPanelLifeCycle)"
      using g [of AdminPanelLifeCycle] f1 f2 f3
        buildInterfaceText_cong [of s3 s env AdminPanelLifeCycle]
      by (simp add: generatedVariants_cases)
    from convertToInterface_succeeds [OF this] True show ?thesis by simp
  next
    case False
    then show ?thesis by simp
  qed
  then obtain s4 where
    "if source s3 = Api then convertToInterface env s3 reg AdminPanelLifeCycle = Inr s4
     else s4 = s3" ..
  with c1 c2 c3 show ?thesis
    unfolding convertSchemaToInterfaces_steps by blast
qed


section \<open>Where the builder throws\<close>







section \<open>Properties of the attribute mapper\<close>

text \<open>
  Claim C1 says that an attribute of kind \<open>password\<close> yields no property line in any of
  the four variants. The builder has a branch for it that emits the empty text, but the
  branch for the text kinds, which stands earlier in the chain, tests for \<open>password\<close>
  too: the attribute gets a \<open>string\<close> property in every variant. Here for any
  environment, indentation, variant and name, and on the schema
  \<open>{ secret: { type: 'password' } }\<close> for each of the four variants.
\<close>

theorem password_attribute_emits_line:
  "attributeProperty env ind t (name, attributeOfType ''password'')
     = Inr (ind @ name @ ''?: string;\<newline>'', []) \<and>
   buildInterfaceText ex_env ex_account Standard
     = Inr (''export interface Account {\<newline>  id: number;\<newline>  attributes: {\<newline>    secret?: string;\<newline>  };\<newline>}\<newline>'', []) \<and>
   buildInterfaceText ex_env ex_account Plain
     = Inr (''export interface Account_Plain {\<newline>  id: number;\<newline>  secret?: string;\<newline>}\<newline>'', []) \<and>
   buildInterfaceText ex_env ex_account NoRelations
     = Inr (''export interface Account_NoRelations {\<newline>  id: number;\<newline>  secret?: string;\<newline>}\<newline>'', []) \<and>
   buildInterfaceText ex_env ex_account AdminPanelLifeCycle
     = Inr (''export interface Account_AdminPanelLifeCycle {\<newline>  id: number;\<newline>  secret?: string;\<newline>}\<newline>'', [])"
  by (simp add: builder_defs string_defs example_defs)

text \<open>
  Claim C2 says that a relation of many-cardinality, \<open>manyToMany\<close> included, is never
  marked optional in the Flattened (\<open>Plain\<close>) and RelationStripped (\<open>NoRelations\<close>)
  variants. \<open>isOptional\<close> exempts \<open>oneToMany\<close> only: a \<open>manyToMany\<close> relation that is
  not required is an array marked with \<open>?\<close>.
\<close>

theorem manyToMany_relation_marked_optional:
  "isOptional ex_tags \<and>
   attributeProperty ex_env ''  '' Plain (''tags'', ex_tags)
     = Inr (''  tags?: Tag_Plain[];\<newline>'', [''Tag_Plain'']) \<and>
   attributeProperty ex_env ''  '' NoRelations (''tags'', ex_tags)
     = Inr (''  tags?: number[];\<newline>'', [''Tag''])"
  by (simp add: builder_defs string_defs example_defs)

text \<open>
  Claim C8. A relation whose target names the platform user entity (the builder's test
  is that the target contains \<open>::user\<close>, as \<open>plugin::users-permissions.user\<close> does) is
  typed with the built-in \<open>User\<close>, suffixed \<open>_Plain\<close> in the Flattened and Mutation
  variants, whatever the rest of the target string is and whatever \<open>pascalCase\<close> would
  make of it.
\<close>

theorem user_relation_maps_to_User:
  assumes "atype a = Some ''relation''"
    and "target a = Some tgt" and "includes_str ''::user'' tgt"
    and "relation a = Some rel"
  shows "attributeProperty env ind t (name, a) =
     (let propertyName = name @ (if isOptional a then ''?'' else '''');
          brackets = (if endsWith ''ToMany'' rel then ''[]'' else '''')
      in case t of
           Standard \<Rightarrow>
             Inr (ind @ propertyName @ '': { data: User'' @ brackets @ '' };\<newline>'',
                  [''User''])
         | Plain \<Rightarrow>
             Inr (ind @ propertyName @ '': User_Plain'' @ brackets @ '';\<newline>'',
                  [''User_Plain''])
         | NoRelations \<Rightarrow>
             Inr (ind @ propertyName @ '': number'' @ brackets @ '';\<newline>'', [''User''])
         | AdminPanelLifeCycle \<Rightarrow>
             Inr (ind @ propertyName @ '': AdminPanelRelationPropertyModification<User_Plain>''
                    @ brackets @ '';\<newline>'',
                  [''User_Plain'', ''AdminPanelRelationPropertyModification'']))"
  using assms
  by (cases t) (simp_all add: attributeProperty_def relationProperty_def Let_def)

theorem user_relation_maps_to_User_witness:
  "atype ex_author = Some ''relation'' \<and>
   target ex_author = Some ''plugin::users-permissions.user'' \<and>
   includes_str ''::user'' ''plugin::users-permissions.user'' \<and>
   relation ex_author = Some ''manyToOne'' \<and>
   attributeProperty ex_env ''  '' Plain (''author'', ex_author)
     = Inr (''  author?: User_Plain;\<newline>'', [''User_Plain''])"
proof -
  have a: "atype ex_author = Some ''relation''"
    and b: "target ex_author = Some ''plugin::users-permissions.user''"
    and d: "relation ex_author = Some ''manyToOne''"
    by (simp_all add: ex_author_def attributeOfType_def)
  have c: "includes_str ''::user'' ''plugin::users-permissions.user''"
    by (simp add: startsWith_def)
  have o: "isOptional ex_author"
    by (simp add: isOptional_def ex_author_def attributeOfType_def)
  from user_relation_maps_to_User [OF a b c d, of ex_env "''  ''" Plain "''author''"]
  have "attributeProperty ex_env ''  '' Plain (''author'', ex_author)
          = Inr (''  author?: User_Plain;\<newline>'', [''User_Plain''])"
    by (simp add: o endsWith_def)
  with a b c d show ?thesis by simp
qed





section \<open>Properties of the variant generator\<close>

text \<open>
  Claim C6, as amended. For a localized schema, the text of every variant is the text the
  same schema gets without localization, with exactly two lines put in before the closing
  lines: \<open>locale: string;\<close> and then \<open>localizations?\<close>. The second is
  \<open>{ data: Name[] }\<close> in the Wire (\<open>Standard\<close>) variant and \<open>Name[]\<close> in the three
  others, where \<open>Name\<close> is the schema's own name without any variant suffix.
\<close>

theorem localization_lines_appended_once:
  assumes "schema s = Some sch" and "localized sch"
    and "buildInterfaceText env s t = Inr (body, deps)"
  shows "\<exists>before.
           body = before
                  @ indentationOf s t @ ''locale: string;\<newline>''
                  @ indentationOf s t
                  @ (if t = Standard then ''localizations?: { data: '' @ pascalName s @ ''[] };\<newline>''
                     else ''localizations?: '' @ pascalName s @ ''[];\<newline>'')
                  @ interfaceFooter s t \<and>
           buildInterfaceText env (s\<lparr>schema := Some (sch\<lparr>localized := False\<rparr>)\<rparr>) t
             = Inr (before @ interfaceFooter s t, deps)"
proof -
  let ?ind = "indentationOf s t"
  let ?s0 = "s\<lparr>schema := Some (sch\<lparr>localized := False\<rparr>)\<rparr>"
  from assms obtain attrs where attrs: "attributes sch = Some attrs"
    by (auto simp: buildInterfaceText_def Let_def split: option.splits)
  from assms attrs obtain text0 where
    loop: "attributesLoop env ?ind t attrs (interfaceHeader s t) [] = Inr (text0, deps)" and
    body: "body = text0 @ localizationText s t ?ind @ interfaceFooter s t"
    by (auto simp: buildInterfaceText_def Let_def split: sum.splits prod.splits)
  have h: "interfaceHeader ?s0 t = interfaceHeader s t"
    by (simp add: interfaceHeader_def interfaceName_def split: SchemaType.splits)
  have i: "indentationOf ?s0 t = ?ind"
    by (simp add: indentationOf_def)
  have f: "interfaceFooter ?s0 t = interfaceFooter s t"
    by (simp add: interfaceFooter_def)
  have "buildInterfaceText env ?s0 t = Inr (text0 @ interfaceFooter s t, deps)"
    by (simp add: buildInterfaceText_def Let_def h i f attrs loop)
  moreover have "body = text0 @ ?ind @ ''locale: string;\<newline>'' @ ?ind
      @ (if t = Standard then ''localizations?: { data: '' @ pascalName s @ ''[] };\<newline>''
         else ''localizations?: '' @ pascalName s @ ''[];\<newline>'')
      @ interfaceFooter s t"
    by (simp add: body localizationText_def)
  ultimately show ?thesis
    by blast
qed

theorem localization_lines_appended_once_witness:
  "schema ex_page = Some ex_page_schema \<and> localized ex_page_schema \<and>
   buildInterfaceText ex_env ex_page Standard
     = Inr (''export interface Page {\<newline>  id: number;\<newline>  attributes: {\<newline>    related: { data: Page[] };\<newline>''
              @ ''    locale: string;\<newline>    localizations?: { data: Page[] };\<newline>'' @ ''  };\<newline>}\<newline>'',
            [''Page'']) \<and>
   buildInterfaceText ex_env
       (ex_page\<lparr>schema := Some (ex_page_schema\<lparr>localized := False\<rparr>)\<rparr>) Standard
     = Inr (''export interface Page {\<newline>  id: number;\<newline>  attributes: {\<newline>    related: { data: Page[] };\<newline>''
              @ ''  };\<newline>}\<newline>'',
            [''Page''])"
proof -
  let ?sch = "ex_page_schema"
  let ?body = "''export interface Page {\<newline>  id: number;\<newline>  attributes: {\<newline>    related: { data: Page[] };\<newline>''
              @ ''    locale: string;\<newline>    localizations?: { data: Page[] };\<newline>'' @ ''  };\<newline>}\<newline>''"
  have some: "schema ex_page = Some ?sch"
    by (simp add: ex_page_def schemaInfoOf_def)
  have loc: "localized ?sch"
    by (simp add: ex_page_schema_def)
  have run: "buildInterfaceText ex_env ex_page Standard = Inr (?body, [''Page''])"
    by (simp add: builder_defs string_defs example_defs)
  have ind: "indentationOf ex_page Standard = ''    ''"
    and foot: "interfaceFooter ex_page Standard = ''  };\<newline>}\<newline>''"
    and nm: "pascalName ex_page = ''Page''"
    by (simp_all add: indentationOf_def interfaceFooter_def ex_page_def schemaInfoOf_def)
  from localization_lines_appended_once [OF some loc run] obtain before where
    b: "?body = before @ ''    locale: string;\<newline>    localizations?: { data: Page[] };\<newline>  };\<newline>}\<newline>''"
    and r: "buildInterfaceText ex_env (ex_page\<lparr>schema := Some (?sch\<lparr>localized := False\<rparr>)\<rparr>)
              Standard = Inr (before @ ''  };\<newline>}\<newline>'', [''Page''])"
    by (auto simp: ind foot nm)
  from b have "before = ''export interface Page {\<newline>  id: number;\<newline>  attributes: {\<newline>    related: { data: Page[] };\<newline>''"
    by simp
  with r run some loc show ?thesis
    by simp
qed

text \<open>
  Claim C6 as it is written also wants the element type of \<open>localizations\<close> to follow
  the relation rules of the variant. On a localized schema with a relation to itself,
  the relation is typed \<open>Page_Plain[]\<close> in the Flattened variant and \<open>number[]\<close> in the
  RelationStripped one, and \<open>localizations\<close> is \<open>Page[]\<close> in both.
\<close>

theorem localizations_not_variant_suffixed:
  "buildInterfaceText ex_env ex_page Plain
     = Inr (''export interface Page_Plain {\<newline>  id: number;\<newline>  related: Page_Plain[];\<newline>  locale: string;\<newline>  localizations?: Page[];\<newline>}\<newline>'', [''Page_Plain'']) \<and>
   buildInterfaceText ex_env ex_page NoRelations
     = Inr (''export interface Page_NoRelations {\<newline>  id: number;\<newline>  related: number[];\<newline>  locale: string;\<newline>  localizations?: Page[];\<newline>}\<newline>'', [''Page''])"
  by (simp add: builder_defs string_defs example_defs)


section \<open>Properties of the generation pass\<close>

text \<open>
  Claim C7, as amended. A record that has no schema at all is skipped: no variant text is
  written, nothing is pushed, and \<open>convertSchemaToInterfaces\<close> returns normally (it only
  deduplicates the dependency list the record already had), so that the caller goes on
  with the next record.
\<close>

theorem missing_schema_skipped:
  assumes "schema s = None"
  shows "convertSchemaToInterfaces env s reg = Inr (s\<lparr>dependencies := new_Set (dependencies s)\<rparr>)"
  using assms by (simp add: convertSchemaToInterfaces_def convertToInterface_def)

theorem missing_schema_skipped_witness:
  "schema ex_missing = None \<and>
   convertSchemaToInterfaces ex_env ex_missing ex_registry = Inr ex_missing"
proof -
  have none: "schema ex_missing = None"
    by (simp add: ex_missing_def schemaInfoOf_def)
  have "ex_missing\<lparr>dependencies := new_Set (dependencies ex_missing)\<rparr> = ex_missing"
    by (simp add: ex_missing_def schemaInfoOf_def new_Set_def)
  with missing_schema_skipped [OF none, of ex_env ex_registry] none show ?thesis
    by simp
qed

text \<open>
  Claim C7 as it is written speaks of a record without attribute definitions. A schema
  that is there and has the empty attribute object is not skipped: all four texts are
  generated, with no property line in them.
\<close>

theorem empty_attribute_object_not_skipped:
  "schema ex_empty = Some \<lparr>attributes = Some [], localized = False\<rparr> \<and>
   convertSchemaToInterfaces ex_env ex_empty [] =
     Inr (ex_empty
       \<lparr>interfaceAsText := ''export interface Empty {\<newline>  id: number;\<newline>  attributes: {\<newline>  };\<newline>}\<newline>'',
        plainInterfaceAsText := ''export interface Empty_Plain {\<newline>  id: number;\<newline>}\<newline>'',
        noRelationsInterfaceAsText := ''export interface Empty_NoRelations {\<newline>  id: number;\<newline>}\<newline>'',
        adminPanelLifeCycleRelationsInterfaceAsText :=
          ''export interface Empty_AdminPanelLifeCycle {\<newline>  id: number;\<newline>}\<newline>''\<rparr>)"
  by (simp add: builder_defs string_defs example_defs)



text \<open>
  Claim C3. Running the whole generation pass a second time on the same schema record and
  registry gives the same result: when \<open>convertSchemaToInterfaces\<close> has returned the
  record \<open>s1\<close>, running it again on \<open>s1\<close> with the same registry returns too, the
  dependency list is the same list, and \<open>buildInterfacesFileContent\<close> assembles the
  same text. (The second pass pushes every import statement again; the final
  \<open>new Set\<close> drops them, because the list was already free of duplicates.)
\<close>

theorem generation_idempotent:
  assumes run: "convertSchemaToInterfaces env s reg = Inr s1"
  shows "\<exists>s2. convertSchemaToInterfaces env s1 reg = Inr s2 \<and>
              dependencies s2 = dependencies s1 \<and>
              buildInterfacesFileContent env s2 = buildInterfacesFileContent env s1"
proof -
  note r1 = convertSchemaToInterfaces_result [OF run]
  have gv: "generatedVariants s1 = generatedVariants s"
    by (simp add: generatedVariants_def r1(3))
  have b: "buildInterfaceText env s1 t = buildInterfaceText env s t" for t
    by (intro buildInterfaceText_cong r1)
  have e: "emittedImports env s1 reg = emittedImports env s reg"
    by (rule ext) (intro emittedImports_cong r1)
  have "schema s1 = None \<or>
        (\<forall>t \<in> set (generatedVariants s1). \<not> isl (buildInterfaceText env s1 t))"
    using r1(8) by (auto simp: gv b r1(1))
  from convertSchemaToInterfaces_succeeds [OF this]
  obtain s2 where run2: "convertSchemaToInterfaces env s1 reg = Inr s2" ..
  note r2 = convertSchemaToInterfaces_result [OF run2]
  let ?new = "concat (map (emittedImports env s reg) (generatedVariants s))"
  have "dependencies s2 = new_Set (dependencies s1 @ ?new)"
    by (simp add: r2(6) emittedStatements_def gv e)
  also have "\<dots> = dependencies s1"
  proof (rule new_Set_absorb)
    show "distinct (dependencies s1)"
      by (simp add: r1(6) distinct_new_Set)
    show "set ?new \<subseteq> set (dependencies s1)"
      by (simp add: r1(6) set_new_Set emittedStatements_def)
  qed
  finally have deps: "dependencies s2 = dependencies s1" .
  have vt: "variantText u s2 = variantText u s1" for u
    using r2(7) [of u] r1(7) [of u]
    by (auto simp: gv b r1(1) split: if_splits)
  have "s2 = s1"
  proof (rule SchemaInfo.equality)
    show "interfaceAsText s2 = interfaceAsText s1"
      using vt [of Standard] by (simp add: variantText_def)
    show "plainInterfaceAsText s2 = plainInterfaceAsText s1"
      using vt [of Plain] by (simp add: variantText_def)
    show "noRelationsInterfaceAsText s2 = noRelationsInterfaceAsText s1"
      using vt [of NoRelations] by (simp add: variantText_def)
    show "adminPanelLifeCycleRelationsInterfaceAsText s2
            = adminPanelLifeCycleRelationsInterfaceAsText s1"
      using vt [of AdminPanelLifeCycle] by (simp add: variantText_def)
  qed (simp_all add: r2(1-5) deps)
  with run2 show ?thesis by simp
qed

theorem generation_idempotent_witness:
  "\<exists>s1. convertSchemaToInterfaces ex_env ex_gallery ex_registry = Inr s1 \<and>
     (\<exists>s2. convertSchemaToInterfaces ex_env s1 ex_registry = Inr s2 \<and>
           dependencies s2 = dependencies s1 \<and>
           buildInterfacesFileContent ex_env s2 = buildInterfacesFileContent ex_env s1)"
proof -
  have "\<exists>s1. convertSchemaToInterfaces ex_env ex_gallery ex_registry = Inr s1"
    by (simp add: builder_defs string_defs example_defs)
  then obtain s1 where run: "convertSchemaToInterfaces ex_env ex_gallery ex_registry = Inr s1" ..
  from generation_idempotent [OF run] run show ?thesis by blast
qed

text \<open>
  Claim C4. The final dependency list holds every import statement that was pushed for
  the schema (by any attribute, in any variant) exactly once, and the statements stand in
  the order in which each was pushed for the first time.
\<close>

theorem dependencies_deduplicated:
  assumes run: "convertSchemaToInterfaces env s reg = Inr s'"
  shows "(\<forall>x \<in> set (emittedStatements env s reg). count_list (dependencies s') x = 1) \<and>
         set (dependencies s') = set (emittedStatements env s reg) \<and>
         sorted_wrt (\<lambda>a b. first_index (emittedStatements env s reg) a
                            < first_index (emittedStatements env s reg) b)
           (dependencies s')"
proof -
  have d: "dependencies s' = new_Set (emittedStatements env s reg)"
    by (rule convertSchemaToInterfaces_result(6) [OF run])
  have "count_list (new_Set xs) x = 1" if "x \<in> set xs" for xs :: "string list" and x
    using that distinct_new_Set [of xs] set_new_Set [of xs]
    by (simp add: count_list_distinct)
  then show ?thesis
    by (simp add: d set_new_Set new_Set_first_seen)
qed

theorem dependencies_deduplicated_witness:
  "\<exists>s'. convertSchemaToInterfaces ex_env ex_gallery ex_registry = Inr s' \<and>
     length (emittedStatements ex_env ex_gallery ex_registry) = 10 \<and>
     length (dependencies s') = 2 \<and>
     (\<forall>x \<in> set (emittedStatements ex_env ex_gallery ex_registry).
        count_list (dependencies s') x = 1) \<and>
     set (dependencies s') = set (emittedStatements ex_env ex_gallery ex_registry) \<and>
     sorted_wrt (\<lambda>a b. first_index (emittedStatements ex_env ex_gallery ex_registry) a
                        < first_index (emittedStatements ex_env ex_gallery ex_registry) b)
       (dependencies s')"
proof -
  have "\<exists>s'. convertSchemaToInterfaces ex_env ex_gallery ex_registry = Inr s' \<and>
          length (dependencies s') = 2"
    by (simp add: builder_defs string_defs example_defs)
  then obtain s' where
    run: "convertSchemaToInterfaces ex_env ex_gallery ex_registry = Inr s'" and
    two: "length (dependencies s') = 2"
    by blast
  have ten: "length (emittedStatements ex_env ex_gallery ex_registry) = 10"
    by (simp add: emittedStatements_def emittedImports_def generatedVariants_def
        builder_defs string_defs example_defs)
  from dependencies_deduplicated [OF run] run two ten show ?thesis
    by blast
qed


section \<open>Properties of the document assembler\<close>

text \<open>
  Claim C5 says that the assembled document has every doubled line break of the
  concatenation collapsed. \<open>replace\<close> with a string pattern rewrites the first
  occurrence only: the break between the Wire and the Flattened text is collapsed, the
  two after it are not.
\<close>

theorem only_first_blank_line_collapsed:
  "map_sum id (buildInterfacesFileContent ex_env) (convertSchemaToInterfaces ex_env ex_flag [])
     = Inr (''// Interface automatically generated by schemas-to-ts\<newline>\<newline>''
            @ ''export interface Flag {\<newline>  id: number;\<newline>  attributes: {\<newline>    on?: boolean;\<newline>  };\<newline>}\<newline>''
            @ ''export interface Flag_Plain {\<newline>  id: number;\<newline>  on?: boolean;\<newline>}\<newline>''
            @ ''\<newline>''
            @ ''export interface Flag_NoRelations {\<newline>  id: number;\<newline>  on?: boolean;\<newline>}\<newline>''
            @ ''\<newline>''
            @ ''export interface Flag_AdminPanelLifeCycle {\<newline>  id: number;\<newline>  on?: boolean;\<newline>}\<newline>'')"
  by (simp add: builder_defs string_defs example_defs)

end
